theory Spec2Isabelle
  imports Complex_Main "HOL-Library.Word"
begin

section \<open>Joint velocity pose data (PoseDataJointVelocities.cpp)\<close>

text \<open>
  A shallow embedding of \<^verbatim>\<open>EMotionFX::MotionMatching::PoseDataJointVelocities\<close>.
  The member functions become functions on a record of the members. \<^verbatim>\<open>float\<close> is
  read as \<^typ>\<open>real\<close>: the development is about which samples are taken, what is
  accumulated and which members are written, not about rounding. A failed
  \<^verbatim>\<open>AZ_Assert\<close> and an access past the end of a vector are results of their own.
\<close>

subsection \<open>Indices and vectors\<close>

type_synonym size_t = "64 word"

text \<open>
  Modelled from the spec: the "no motion-extraction joint" sentinel. The engine header
  that declares \<^verbatim>\<open>InvalidIndex\<close> is not part of this file; it is the largest
  \<^verbatim>\<open>size_t\<close>.
\<close>

definition InvalidIndex :: size_t where
  "InvalidIndex = - 1"

record Vector3 =
  v_x :: real
  v_y :: real
  v_z :: real

definition CreateZero :: Vector3 where
  "CreateZero = \<lparr>v_x = 0, v_y = 0, v_z = 0\<rparr>"

definition vec_add :: "Vector3 \<Rightarrow> Vector3 \<Rightarrow> Vector3" where
  "vec_add a b = \<lparr>v_x = v_x a + v_x b, v_y = v_y a + v_y b, v_z = v_z a + v_z b\<rparr>"

definition vec_sub :: "Vector3 \<Rightarrow> Vector3 \<Rightarrow> Vector3" where
  "vec_sub a b = \<lparr>v_x = v_x a - v_x b, v_y = v_y a - v_y b, v_z = v_z a - v_z b\<rparr>"

definition vec_mul :: "Vector3 \<Rightarrow> real \<Rightarrow> Vector3" where
  "vec_mul a f = \<lparr>v_x = v_x a * f, v_y = v_y a * f, v_z = v_z a * f\<rparr>"

definition vec_div :: "Vector3 \<Rightarrow> real \<Rightarrow> Vector3" where
  "vec_div a f = \<lparr>v_x = v_x a / f, v_y = v_y a / f, v_z = v_z a / f\<rparr>"

text \<open>
  Modelled from the spec: \<^verbatim>\<open>AZ::Vector3::Lerp\<close>, whose body is in the math library
  and not in this file. The spec's "linearly interpolate (per component)" between the
  receiver and the destination: the receiver plus \<open>t\<close> times the difference.
\<close>

definition Lerp :: "Vector3 \<Rightarrow> Vector3 \<Rightarrow> real \<Rightarrow> Vector3" where
  "Lerp a dest t = vec_add a (vec_mul (vec_sub dest a) t)"

text \<open>
  Modelled from the spec: \<^verbatim>\<open>AZ::GetClamp\<close>, "each sample time clamped into
  \<open>[0, clipDuration]\<close>".
\<close>

definition GetClamp :: "real \<Rightarrow> real \<Rightarrow> real \<Rightarrow> real" where
  "GetClamp val lo hi = (if val < lo then lo else if val > hi then hi else val)"

text \<open>
  Modelled from the spec: \<^verbatim>\<open>CalculateLinearVelocity\<close> of
  \<^verbatim>\<open>EMotionFX/Source/Velocity.h\<close>, which is not part of this file. The spec's
  "linear velocity increment = (currentWorldPosition - previousWorldPosition) / frameDelta".
\<close>

definition CalculateLinearVelocity :: "Vector3 \<Rightarrow> Vector3 \<Rightarrow> real \<Rightarrow> Vector3" where
  "CalculateLinearVelocity lastPosition currentPosition timeDelta =
     vec_div (vec_sub currentPosition lastPosition) timeDelta"

subsection \<open>The pose data and its environment\<close>

datatype error = AssertFailed | OutOfRange

text \<open>
  The members of the class, with the two it inherits from \<^verbatim>\<open>PoseData\<close>:
  \<open>m_pose\<close> (the owning pose, kept as an opaque handle) and \<open>m_isUsed\<close>.
\<close>

record PoseDataJointVelocities =
  m_pose :: nat
  m_isUsed :: bool
  m_velocities :: "Vector3 list"
  m_angularVelocities :: "Vector3 list"
  m_relativeToJointIndex :: size_t

text \<open>
  What \<^verbatim>\<open>CopyFrom\<close> is handed: a pointer to some \<^verbatim>\<open>PoseData\<close>, whose run-time
  type is joint velocities or something else.
\<close>

datatype PoseData = JointVelocities PoseDataJointVelocities | OtherPoseData

text \<open>What \<^verbatim>\<open>LinkToActorInstance\<close> reads from the actor instance.\<close>

record ActorInstance =
  GetNumNodes :: size_t
  GetMotionExtractionNodeIndex :: size_t

text \<open>
  \<^verbatim>\<open>vector::resize\<close>: keeps a prefix, or appends default-constructed elements.
  A default-constructed \<^verbatim>\<open>AZ::Vector3\<close> holds no particular value, so the value
  of the new element at index \<open>i\<close> is a parameter \<open>fresh i\<close>.
\<close>

definition resize :: "nat \<Rightarrow> (nat \<Rightarrow> 'a) \<Rightarrow> 'a list \<Rightarrow> 'a list" where
  "resize n fresh xs = take n xs @ map fresh [length xs..<n]"

subsection \<open>Clear, LinkToActorInstance, SetRelativeToJointIndex, LinkToActor\<close>

definition Clear :: "PoseDataJointVelocities \<Rightarrow> PoseDataJointVelocities" where
  "Clear pd = pd\<lparr>m_velocities := [], m_angularVelocities := []\<rparr>"

definition SetRelativeToJointIndex ::
  "PoseDataJointVelocities \<Rightarrow> size_t \<Rightarrow> PoseDataJointVelocities" where
  "SetRelativeToJointIndex pd relativeToJointIndex =
     (if relativeToJointIndex = InvalidIndex
      then pd\<lparr>m_relativeToJointIndex := 0\<rparr>
      else pd\<lparr>m_relativeToJointIndex := relativeToJointIndex\<rparr>)"

definition LinkToActorInstance ::
  "(nat \<Rightarrow> Vector3) \<Rightarrow> PoseDataJointVelocities \<Rightarrow> ActorInstance \<Rightarrow> PoseDataJointVelocities" where
  "LinkToActorInstance fresh pd actorInstance =
     SetRelativeToJointIndex
       (pd\<lparr>m_velocities := resize (unat (GetNumNodes actorInstance)) fresh (m_velocities pd),
           m_angularVelocities :=
             resize (unat (GetNumNodes actorInstance)) fresh (m_angularVelocities pd)\<rparr>)
       (GetMotionExtractionNodeIndex actorInstance)"

definition LinkToActor :: "PoseDataJointVelocities \<Rightarrow> PoseDataJointVelocities" where
  "LinkToActor pd = Clear pd"

subsection \<open>Reset\<close>

text \<open>
  The loop runs over the indices of \<open>m_velocities\<close> and writes both vectors at each:
  a shorter \<open>m_angularVelocities\<close> is written past its end.
\<close>

fun Reset_loop :: "nat list \<Rightarrow> PoseDataJointVelocities \<Rightarrow> error + PoseDataJointVelocities" where
  "Reset_loop [] pd = Inr pd"
| "Reset_loop (i # rest) pd =
     (if i < length (m_velocities pd) \<and> i < length (m_angularVelocities pd)
      then Reset_loop rest
             (pd\<lparr>m_velocities := (m_velocities pd)[i := CreateZero],
                 m_angularVelocities := (m_angularVelocities pd)[i := CreateZero]\<rparr>)
      else Inl OutOfRange)"

definition Reset :: "PoseDataJointVelocities \<Rightarrow> error + PoseDataJointVelocities" where
  "Reset pd = (let numJoints = length (m_velocities pd) in Reset_loop [0..<numJoints] pd)"

subsection \<open>CopyFrom\<close>

definition CopyFrom :: "PoseDataJointVelocities \<Rightarrow> PoseData \<Rightarrow> error + PoseDataJointVelocities" where
  "CopyFrom pd from =
     (case from of
        OtherPoseData \<Rightarrow> Inl AssertFailed
      | JointVelocities fromVelocityPoseData \<Rightarrow>
          Inr (pd\<lparr>m_isUsed := m_isUsed fromVelocityPoseData,
                  m_velocities := m_velocities fromVelocityPoseData,
                  m_angularVelocities := m_angularVelocities fromVelocityPoseData,
                  m_relativeToJointIndex := m_relativeToJointIndex fromVelocityPoseData\<rparr>))"

subsection \<open>Blend\<close>

text \<open>
  The interpolation loop: index \<open>i\<close> runs over \<open>m_velocities\<close> and reads the
  destination's vectors and both angular vectors at \<open>i\<close>.
\<close>

fun Blend_loop ::
  "nat list \<Rightarrow> PoseDataJointVelocities \<Rightarrow> PoseDataJointVelocities \<Rightarrow> real \<Rightarrow>
   error + PoseDataJointVelocities" where
  "Blend_loop [] pd destPoseData weight = Inr pd"
| "Blend_loop (i # rest) pd destPoseData weight =
     (if i < length (m_velocities pd) \<and> i < length (m_velocities destPoseData) \<and>
         i < length (m_angularVelocities pd) \<and> i < length (m_angularVelocities destPoseData)
      then Blend_loop rest
             (pd\<lparr>m_velocities := (m_velocities pd)
                    [i := Lerp (m_velocities pd ! i) (m_velocities destPoseData ! i) weight],
                 m_angularVelocities := (m_angularVelocities pd)
                    [i := Lerp (m_angularVelocities pd ! i)
                               (m_angularVelocities destPoseData ! i) weight]\<rparr>)
             destPoseData weight
      else Inl OutOfRange)"

text \<open>
  \<open>destPose\<close> is what \<^verbatim>\<open>destPose->GetPoseData<PoseDataJointVelocities>()\<close> returns:
  the destination's joint velocities, or nothing (a null pointer).
\<close>

definition Blend ::
  "PoseDataJointVelocities \<Rightarrow> PoseDataJointVelocities option \<Rightarrow> real \<Rightarrow>
   error + PoseDataJointVelocities" where
  "Blend pd destPose weight =
     (case destPose of
        None \<Rightarrow> Inr pd
      | Some destPoseData \<Rightarrow>
          if m_isUsed destPoseData then
            if length (m_velocities pd) \<noteq> length (m_velocities destPoseData)
            then Inl AssertFailed
            else if m_isUsed pd
              then Blend_loop [0..<length (m_velocities pd)] pd destPoseData weight
              else Inr (pd\<lparr>m_velocities := m_velocities destPoseData,
                           m_angularVelocities := m_angularVelocities destPoseData\<rparr>)
          else Inr pd)"

text \<open>
  \<^verbatim>\<open>AZ_Assert\<close> is a macro of the engine and not part of this file. \<open>Blend\<close>
  above takes a failed assertion as the end of the call. Where the macro is compiled
  out, or reports the failure and goes on, the call reaches the two branches whatever
  the lengths are; \<open>Blend_unchecked\<close> is \<^verbatim>\<open>Blend\<close> read that way. The
  interpolation loop still fails when it leaves a vector.
\<close>

definition Blend_unchecked ::
  "PoseDataJointVelocities \<Rightarrow> PoseDataJointVelocities option \<Rightarrow> real \<Rightarrow>
   error + PoseDataJointVelocities" where
  "Blend_unchecked pd destPose weight =
     (case destPose of
        None \<Rightarrow> Inr pd
      | Some destPoseData \<Rightarrow>
          if m_isUsed destPoseData then
            if m_isUsed pd
              then Blend_loop [0..<length (m_velocities pd)] pd destPoseData weight
              else Inr (pd\<lparr>m_velocities := m_velocities destPoseData,
                           m_angularVelocities := m_angularVelocities destPoseData\<rparr>)
          else Inr pd)"

subsection \<open>CalculateVelocity\<close>

text \<open>
  A transform is its position and the rest (rotation, scale), which this file never
  looks into. A pose is opaque too. The motion instance is what the function reads of
  it: its current time, the duration of its motion and the bind pose of its actor
  instance.
\<close>

record 'r Transform =
  m_position :: Vector3
  m_orientation :: 'r

record 'p MotionInstance =
  GetCurrentTime :: real
  GetDuration :: real
  GetBindPose :: 'p

text \<open>
  What the engine does with poses and transforms is a parameter:
  \<^item> \<open>RequestPose\<close>: the content of a scratch pose handed out by the pose pool;
  \<^item> \<open>Update\<close>: \<^verbatim>\<open>motionInstance->GetMotion()->Update(bindPose, &out, motionInstance)\<close>,
    the pose of the clip at the motion instance's current time;
  \<^item> \<open>GetWorldSpaceTransform\<close>, \<open>Inversed\<close>, \<open>TransformVector\<close>: the members of
    \<^verbatim>\<open>Pose\<close> and \<^verbatim>\<open>Transform\<close> of these names.
\<close>

record ('p, 'r) Engine =
  RequestPose :: 'p
  Update :: "'p \<Rightarrow> 'p MotionInstance \<Rightarrow> 'p"
  GetWorldSpaceTransform :: "'p \<Rightarrow> size_t \<Rightarrow> 'r Transform"
  Inversed :: "'r Transform \<Rightarrow> 'r Transform"
  TransformVector :: "'r Transform \<Rightarrow> Vector3 \<Rightarrow> Vector3"

definition SetCurrentTime :: "'p MotionInstance \<Rightarrow> real \<Rightarrow> 'p MotionInstance" where
  "SetCurrentTime motionInstance time = motionInstance\<lparr>GetCurrentTime := time\<rparr>"

definition numSamples :: nat where
  "numSamples = 3"

definition timeRange :: real where
  "timeRange = 0.05"

definition halfTimeRange :: real where
  "halfTimeRange = timeRange * 0.5"

definition frameDelta :: real where
  "frameDelta = timeRange / real numSamples"

text \<open>The loop over the joints inside one sample: lines 183 to 190.\<close>

fun joint_loop ::
  "('p, 'r) Engine \<Rightarrow> 'p \<Rightarrow> 'p \<Rightarrow> 'r Transform \<Rightarrow> nat list \<Rightarrow> PoseDataJointVelocities \<Rightarrow>
   error + PoseDataJointVelocities" where
  "joint_loop E prevPose currentPose inverseJointWorldTransform [] pd = Inr pd"
| "joint_loop E prevPose currentPose inverseJointWorldTransform (jointIndex # rest) pd =
     (if jointIndex < length (m_velocities pd) then
        (let prevPosition =
               m_position (GetWorldSpaceTransform E prevPose (of_nat jointIndex));
             currentPosition =
               m_position (GetWorldSpaceTransform E currentPose (of_nat jointIndex));
             velocity = CalculateLinearVelocity prevPosition currentPosition frameDelta
         in joint_loop E prevPose currentPose inverseJointWorldTransform rest
              (pd\<lparr>m_velocities := (m_velocities pd)
                    [jointIndex := vec_add (m_velocities pd ! jointIndex)
                       (TransformVector E inverseJointWorldTransform velocity)]\<rparr>))
      else Inl OutOfRange)"

text \<open>
  The loop over the samples: lines 167 to 193. Its state is the pose data, the motion
  instance and the two scratch poses.
\<close>

fun sample_loop ::
  "('p, 'r) Engine \<Rightarrow> real \<Rightarrow> real \<Rightarrow> size_t \<Rightarrow> nat \<Rightarrow> nat list \<Rightarrow>
   PoseDataJointVelocities \<times> 'p MotionInstance \<times> 'p \<times> 'p \<Rightarrow>
   error + PoseDataJointVelocities \<times> 'p MotionInstance \<times> 'p \<times> 'p" where
  "sample_loop E startTime motionDuration relativeToJointIndex numJoints [] st = Inr st"
| "sample_loop E startTime motionDuration relativeToJointIndex numJoints (sampleIndex # rest)
     (pd, motionInstance, prevPose, currentPose) =
     (let sampleTime = GetClamp (startTime + real sampleIndex * frameDelta) 0 motionDuration;
          motionInstance' = SetCurrentTime motionInstance sampleTime
      in if sampleIndex = 0 then
           sample_loop E startTime motionDuration relativeToJointIndex numJoints rest
             (pd, motionInstance',
              Update E (GetBindPose motionInstance') motionInstance', currentPose)
         else
           (let currentPose' = Update E (GetBindPose motionInstance') motionInstance';
                inverseJointWorldTransform =
                  Inversed E (GetWorldSpaceTransform E currentPose' relativeToJointIndex)
            in case joint_loop E prevPose currentPose' inverseJointWorldTransform
                      [0..<numJoints] pd of
                 Inl e \<Rightarrow> Inl e
               | Inr pd' \<Rightarrow>
                   sample_loop E startTime motionDuration relativeToJointIndex numJoints rest
                     (pd', motionInstance', currentPose', currentPose')))"

text \<open>The final loop: lines 196 to 200.\<close>

fun average_loop ::
  "real \<Rightarrow> nat list \<Rightarrow> PoseDataJointVelocities \<Rightarrow> error + PoseDataJointVelocities" where
  "average_loop numSamplesFloat [] pd = Inr pd"
| "average_loop numSamplesFloat (i # rest) pd =
     (if i < length (m_velocities pd) \<and> i < length (m_angularVelocities pd)
      then average_loop numSamplesFloat rest
             (pd\<lparr>m_velocities := (m_velocities pd)
                    [i := vec_div (m_velocities pd ! i) numSamplesFloat],
                 m_angularVelocities := (m_angularVelocities pd)
                    [i := vec_div (m_angularVelocities pd ! i) numSamplesFloat]\<rparr>)
      else Inl OutOfRange)"

text \<open>
  The function returns the pose data and the motion instance as it leaves them. The
  transform of the reference joint is looked up at the argument \<open>relativeToJointIndex\<close>,
  as the source does, not at the member that \<open>SetRelativeToJointIndex\<close> has set.
  Handing the two scratch poses back to the pool changes neither of the two and is left
  out.
\<close>

definition CalculateVelocity ::
  "('p, 'r) Engine \<Rightarrow> (nat \<Rightarrow> Vector3) \<Rightarrow> PoseDataJointVelocities \<Rightarrow> 'p MotionInstance \<Rightarrow>
   size_t \<Rightarrow> error + PoseDataJointVelocities \<times> 'p MotionInstance" where
  "CalculateVelocity E fresh pd motionInstance relativeToJointIndex =
     (let numJoints = length (m_velocities pd);
          pd1 = SetRelativeToJointIndex pd relativeToJointIndex;
          pd2 = pd1\<lparr>m_velocities := resize numJoints fresh (m_velocities pd1),
                    m_angularVelocities := resize numJoints fresh (m_angularVelocities pd1)\<rparr>;
          originalTime = GetCurrentTime motionInstance;
          prevPose = RequestPose E;
          currentPose = RequestPose E;
          startTime = originalTime - halfTimeRange;
          motionDuration = GetDuration motionInstance
      in case Reset pd2 of
           Inl e \<Rightarrow> Inl e
         | Inr pd3 \<Rightarrow>
             (case sample_loop E startTime motionDuration relativeToJointIndex numJoints
                     [0..<numSamples + 1] (pd3, motionInstance, prevPose, currentPose) of
                Inl e \<Rightarrow> Inl e
              | Inr (pd4, motionInstance4, prevPose4, currentPose4) \<Rightarrow>
                  (case average_loop (real numSamples) [0..<numJoints] pd4 of
                     Inl e \<Rightarrow> Inl e
                   | Inr pd5 \<Rightarrow> Inr (pd5, SetCurrentTime motionInstance4 originalTime))))"

subsection \<open>The estimate as the specification words it\<close>

text \<open>
  The specification's account of the estimate, to be compared with the loops above.
  The \<open>i\<close>-th point of the window of width \<open>W = timeRange\<close> centred on \<open>t\<close>, for
  \<open>i\<close> from \<open>0\<close> to \<open>N = numSamples\<close>:
\<close>

definition window_point :: "real \<Rightarrow> nat \<Rightarrow> real" where
  "window_point t i = (t - timeRange / 2) + real i * (timeRange / real numSamples)"

text \<open>The sample time: the window point clamped into \<open>[0, D]\<close>.\<close>

definition sample_time :: "real \<Rightarrow> real \<Rightarrow> nat \<Rightarrow> real" where
  "sample_time t D i = GetClamp (window_point t i) 0 D"

text \<open>The pose of the clip at the \<open>i\<close>-th sample time.\<close>

definition sampled_pose :: "('p, 'r) Engine \<Rightarrow> 'p MotionInstance \<Rightarrow> nat \<Rightarrow> 'p" where
  "sampled_pose E motionInstance i =
     Update E (GetBindPose motionInstance)
       (motionInstance\<lparr>GetCurrentTime :=
          sample_time (GetCurrentTime motionInstance) (GetDuration motionInstance) i\<rparr>)"

text \<open>
  The world-space rate of joint \<open>j\<close> over the pair of samples \<open>k - 1\<close> and \<open>k\<close>:
  (current position - previous position) / (W / N).
\<close>

definition pair_rate :: "('p, 'r) Engine \<Rightarrow> 'p MotionInstance \<Rightarrow> nat \<Rightarrow> nat \<Rightarrow> Vector3" where
  "pair_rate E motionInstance k j =
     vec_div
       (vec_sub
          (m_position (GetWorldSpaceTransform E (sampled_pose E motionInstance k) (of_nat j)))
          (m_position
             (GetWorldSpaceTransform E (sampled_pose E motionInstance (k - 1)) (of_nat j))))
       (timeRange / real numSamples)"

text \<open>
  A world-space vector taken into the frame of the reference joint as it stands in
  sample \<open>f\<close>: the inverse of the joint's world transform there, applied as to a vector.
\<close>

definition into_frame ::
  "('p, 'r) Engine \<Rightarrow> 'p MotionInstance \<Rightarrow> size_t \<Rightarrow> nat \<Rightarrow> Vector3 \<Rightarrow> Vector3" where
  "into_frame E motionInstance relativeToJointIndex f v =
     TransformVector E
       (Inversed E
          (GetWorldSpaceTransform E (sampled_pose E motionInstance f) relativeToJointIndex)) v"

text \<open>The contribution of the pair ending in sample \<open>k\<close>, in the frame of sample \<open>k\<close>.\<close>

definition pair_velocity ::
  "('p, 'r) Engine \<Rightarrow> 'p MotionInstance \<Rightarrow> size_t \<Rightarrow> nat \<Rightarrow> nat \<Rightarrow> Vector3" where
  "pair_velocity E motionInstance relativeToJointIndex k j =
     into_frame E motionInstance relativeToJointIndex k (pair_rate E motionInstance k j)"

text \<open>The sum of the \<open>N\<close> contributions, starting from zero, divided by \<open>N\<close>.\<close>

definition estimated_velocity ::
  "('p, 'r) Engine \<Rightarrow> 'p MotionInstance \<Rightarrow> size_t \<Rightarrow> nat \<Rightarrow> Vector3" where
  "estimated_velocity E motionInstance relativeToJointIndex j =
     vec_div
       (foldl vec_add CreateZero
          (map (\<lambda>k. pair_velocity E motionInstance relativeToJointIndex k j)
             [1..<numSamples + 1]))
       (real numSamples)"

text \<open>
  The same sum with every contribution taken into the frame of the last sample
  (sample \<open>N\<close>), whichever pair it comes from.
\<close>

definition last_frame_velocity ::
  "('p, 'r) Engine \<Rightarrow> 'p MotionInstance \<Rightarrow> size_t \<Rightarrow> nat \<Rightarrow> Vector3" where
  "last_frame_velocity E motionInstance relativeToJointIndex j =
     vec_div
       (foldl vec_add CreateZero
          (map (\<lambda>k. into_frame E motionInstance relativeToJointIndex numSamples
                       (pair_rate E motionInstance k j))
             [1..<numSamples + 1]))
       (real numSamples)"

subsection \<open>What one pass over the joints adds\<close>

text \<open>
  The effect of the joint loop on the whole vector of velocities, for one pair of poses
  and one inverse transform of the reference joint.
\<close>

definition accumulate ::
  "('p, 'r) Engine \<Rightarrow> 'p \<Rightarrow> 'p \<Rightarrow> 'r Transform \<Rightarrow> Vector3 list \<Rightarrow> Vector3 list" where
  "accumulate E prevPose currentPose T vs =
     map (\<lambda>j. vec_add (vs ! j)
                 (TransformVector E T
                    (CalculateLinearVelocity
                       (m_position (GetWorldSpaceTransform E prevPose (of_nat j)))
                       (m_position (GetWorldSpaceTransform E currentPose (of_nat j)))
                       frameDelta))) [0..<length vs]"

subsection \<open>A clip and pose data to run the functions on\<close>

text \<open>
  An engine small enough to evaluate: a transform's rotation is a number of quarter
  turns about the z axis, a pose is the list of its joints' world transforms, and the
  clip has two joints. Joint 0 stays at the origin and makes a quarter turn at time
  \<open>1/2\<close>; joint 1 moves along the world x axis at unit speed.
\<close>

definition quarter_turns :: "nat \<Rightarrow> Vector3 \<Rightarrow> Vector3" where
  "quarter_turns k v =
     (if k mod 4 = 0 then v
      else if k mod 4 = 1 then \<lparr>v_x = - v_y v, v_y = v_x v, v_z = v_z v\<rparr>
      else if k mod 4 = 2 then \<lparr>v_x = - v_x v, v_y = - v_y v, v_z = v_z v\<rparr>
      else \<lparr>v_x = v_y v, v_y = - v_x v, v_z = v_z v\<rparr>)"

definition turning_Inversed :: "nat Transform \<Rightarrow> nat Transform" where
  "turning_Inversed T =
     \<lparr>m_position =
        quarter_turns (4 - m_orientation T mod 4) (vec_sub CreateZero (m_position T)),
      m_orientation = (4 - m_orientation T mod 4) mod 4\<rparr>"

definition turning_TransformVector :: "nat Transform \<Rightarrow> Vector3 \<Rightarrow> Vector3" where
  "turning_TransformVector T v = quarter_turns (m_orientation T) v"

definition turning_GetWorldSpaceTransform :: "nat Transform list \<Rightarrow> size_t \<Rightarrow> nat Transform" where
  "turning_GetWorldSpaceTransform pose i =
     (if unat i < length pose then pose ! unat i
      else \<lparr>m_position = CreateZero, m_orientation = 0\<rparr>)"

definition turning_Update ::
  "nat Transform list \<Rightarrow> (nat Transform list) MotionInstance \<Rightarrow> nat Transform list" where
  "turning_Update bindPose motionInstance =
     [\<lparr>m_position = CreateZero,
       m_orientation = (if GetCurrentTime motionInstance < 1 / 2 then 0 else 1)\<rparr>,
      \<lparr>m_position = \<lparr>v_x = GetCurrentTime motionInstance, v_y = 0, v_z = 0\<rparr>,
       m_orientation = 0\<rparr>]"

definition turning_engine :: "(nat Transform list, nat) Engine" where
  "turning_engine =
     \<lparr>RequestPose = [], Update = turning_Update,
      GetWorldSpaceTransform = turning_GetWorldSpaceTransform,
      Inversed = turning_Inversed, TransformVector = turning_TransformVector\<rparr>"

definition turning_motion :: "real \<Rightarrow> (nat Transform list) MotionInstance" where
  "turning_motion t = \<lparr>GetCurrentTime = t, GetDuration = 1, GetBindPose = []\<rparr>"

text \<open>
  Pose data of two joints, a second one to blend with and copy from, pose data that has
  never been linked, a value for the elements that \<open>resize\<close> appends, and two actor
  instances: one without joints, one with three joints and no motion extraction joint.
\<close>

definition two_joints :: PoseDataJointVelocities where
  "two_joints =
     \<lparr>m_pose = 0, m_isUsed = True,
      m_velocities = [\<lparr>v_x = 1, v_y = 2, v_z = 3\<rparr>, \<lparr>v_x = 4, v_y = 5, v_z = 6\<rparr>],
      m_angularVelocities = [\<lparr>v_x = 7, v_y = 8, v_z = 9\<rparr>, \<lparr>v_x = 1, v_y = 1, v_z = 1\<rparr>],
      m_relativeToJointIndex = 1\<rparr>"

definition other_joints :: PoseDataJointVelocities where
  "other_joints =
     \<lparr>m_pose = 5, m_isUsed = True,
      m_velocities = [\<lparr>v_x = 3, v_y = 2, v_z = 1\<rparr>, \<lparr>v_x = 0, v_y = 1, v_z = 2\<rparr>],
      m_angularVelocities = [\<lparr>v_x = 1, v_y = 0, v_z = 1\<rparr>, \<lparr>v_x = 3, v_y = 3, v_z = 3\<rparr>],
      m_relativeToJointIndex = 0\<rparr>"

definition unlinked :: PoseDataJointVelocities where
  "unlinked =
     \<lparr>m_pose = 0, m_isUsed = False, m_velocities = [], m_angularVelocities = [],
      m_relativeToJointIndex = 0\<rparr>"

definition no_value :: "nat \<Rightarrow> Vector3" where
  "no_value i = \<lparr>v_x = 1, v_y = 1, v_z = 1\<rparr>"

definition no_joints :: ActorInstance where
  "no_joints = \<lparr>GetNumNodes = 0, GetMotionExtractionNodeIndex = InvalidIndex\<rparr>"

definition three_joints :: ActorInstance where
  "three_joints = \<lparr>GetNumNodes = 3, GetMotionExtractionNodeIndex = InvalidIndex\<rparr>"

section \<open>The loops in closed form\<close>

text \<open>
  Each loop over the indices writes every element once: its result is a \<open>map\<close>
  over the vector it started from.
\<close>

lemma Reset_loop_map:
  "distinct js \<Longrightarrow> set js \<subseteq> {0..<n} \<Longrightarrow> length (m_velocities pd) = n \<Longrightarrow>
   length (m_angularVelocities pd) = n \<Longrightarrow>
   Reset_loop js pd =
     Inr (pd\<lparr>m_velocities :=
             map (\<lambda>j. if j \<in> set js then CreateZero else m_velocities pd ! j) [0..<n],
            m_angularVelocities :=
             map (\<lambda>j. if j \<in> set js then CreateZero else m_angularVelocities pd ! j) [0..<n]\<rparr>)"
proof (induction js arbitrary: pd)
  case Nil
  then have "map ((!) (m_velocities pd)) [0..<n] = m_velocities pd"
    and "map ((!) (m_angularVelocities pd)) [0..<n] = m_angularVelocities pd"
    by (metis map_nth)+
  then show ?case by simp
next
  case (Cons i rest)
  then show ?case
    by (auto simp: nth_list_update)
qed

lemma Blend_loop_map:
  "distinct js \<Longrightarrow> set js \<subseteq> {0..<n} \<Longrightarrow> length (m_velocities pd) = n \<Longrightarrow>
   length (m_angularVelocities pd) = n \<Longrightarrow> length (m_velocities d) = n \<Longrightarrow>
   length (m_angularVelocities d) = n \<Longrightarrow>
   Blend_loop js pd d w =
     Inr (pd\<lparr>m_velocities :=
             map (\<lambda>j. if j \<in> set js then Lerp (m_velocities pd ! j) (m_velocities d ! j) w
                       else m_velocities pd ! j) [0..<n],
            m_angularVelocities :=
             map (\<lambda>j. if j \<in> set js
                       then Lerp (m_angularVelocities pd ! j) (m_angularVelocities d ! j) w
                       else m_angularVelocities pd ! j) [0..<n]\<rparr>)"
proof (induction js arbitrary: pd)
  case Nil
  then have "map ((!) (m_velocities pd)) [0..<n] = m_velocities pd"
    and "map ((!) (m_angularVelocities pd)) [0..<n] = m_angularVelocities pd"
    by (metis map_nth)+
  then show ?case by simp
next
  case (Cons i rest)
  then show ?case
    by (auto simp: nth_list_update)
qed

lemma joint_loop_map:
  "distinct js \<Longrightarrow> set js \<subseteq> {0..<n} \<Longrightarrow> length (m_velocities pd) = n \<Longrightarrow>
   joint_loop E prevPose currentPose T js pd =
     Inr (pd\<lparr>m_velocities :=
             map (\<lambda>j. if j \<in> set js
                   then vec_add (m_velocities pd ! j)
                          (TransformVector E T
                             (CalculateLinearVelocity
                                (m_position (GetWorldSpaceTransform E prevPose (of_nat j)))
                                (m_position (GetWorldSpaceTransform E currentPose (of_nat j)))
                                frameDelta))
                   else m_velocities pd ! j) [0..<n]\<rparr>)"
proof (induction js arbitrary: pd)
  case Nil
  then have "map ((!) (m_velocities pd)) [0..<n] = m_velocities pd"
    by (metis map_nth)
  then show ?case by simp
next
  case (Cons i rest)
  then show ?case
    by (auto simp: nth_list_update Let_def)
qed

lemma average_loop_map:
  "distinct js \<Longrightarrow> set js \<subseteq> {0..<n} \<Longrightarrow> length (m_velocities pd) = n \<Longrightarrow>
   length (m_angularVelocities pd) = n \<Longrightarrow>
   average_loop f js pd =
     Inr (pd\<lparr>m_velocities :=
             map (\<lambda>j. if j \<in> set js then vec_div (m_velocities pd ! j) f
                       else m_velocities pd ! j) [0..<n],
            m_angularVelocities :=
             map (\<lambda>j. if j \<in> set js then vec_div (m_angularVelocities pd ! j) f
                       else m_angularVelocities pd ! j) [0..<n]\<rparr>)"
proof (induction js arbitrary: pd)
  case Nil
  then have "map ((!) (m_velocities pd)) [0..<n] = m_velocities pd"
    and "map ((!) (m_angularVelocities pd)) [0..<n] = m_angularVelocities pd"
    by (metis map_nth)+
  then show ?case by simp
next
  case (Cons i rest)
  then show ?case
    by (auto simp: nth_list_update)
qed

lemma samples_list: "[0..<numSamples + 1] = [0, 1, 2, 3]"
  by (simp add: numSamples_def upt_conv_Cons)

lemma pairs_list: "[1..<numSamples + 1] = [1, 2, 3]"
  by (simp add: numSamples_def upt_conv_Cons)

lemma length_resize [simp]: "length (resize n fresh xs) = n"
  by (simp add: resize_def)

lemma resize_same: "length xs = n \<Longrightarrow> resize n fresh xs = xs"
  by (simp add: resize_def)

lemma Reset_all:
  assumes "length (m_velocities pd) = n" "length (m_angularVelocities pd) = n"
  shows "Reset pd = Inr (pd\<lparr>m_velocities := replicate n CreateZero,
                            m_angularVelocities := replicate n CreateZero\<rparr>)"
proof -
  have "map (\<lambda>j. if j \<in> set [0..<n] then CreateZero else xs ! j) [0..<n] =
        replicate n CreateZero" for xs :: "Vector3 list"
    by (rule nth_equalityI) simp_all
  then show ?thesis
    using assms Reset_loop_map [of "[0..<n]" n pd] by (simp add: Reset_def)
qed

lemma joint_loop_all:
  assumes "length (m_velocities pd) = n"
  shows "joint_loop E prevPose currentPose T [0..<n] pd =
         Inr (pd\<lparr>m_velocities := accumulate E prevPose currentPose T (m_velocities pd)\<rparr>)"
  using assms joint_loop_map [of "[0..<n]" n pd E prevPose currentPose T]
  by (simp add: accumulate_def cong: map_cong)

lemma average_loop_all:
  assumes "length (m_velocities pd) = n" "length (m_angularVelocities pd) = n"
  shows "average_loop f [0..<n] pd =
         Inr (pd\<lparr>m_velocities := map (\<lambda>v. vec_div v f) (m_velocities pd),
                 m_angularVelocities := map (\<lambda>v. vec_div v f) (m_angularVelocities pd)\<rparr>)"
proof -
  have "map (\<lambda>j. if j \<in> set [0..<n] then vec_div (xs ! j) f else xs ! j) [0..<n] =
        map (\<lambda>v. vec_div v f) xs" if "length xs = n" for xs :: "Vector3 list"
    using that by (intro nth_equalityI) simp_all
  then show ?thesis
    using assms average_loop_map [of "[0..<n]" n pd f] by simp
qed

lemma length_accumulate [simp]: "length (accumulate E p c T vs) = length vs"
  by (simp add: accumulate_def)

lemma nth_accumulate:
  "j < length vs \<Longrightarrow> accumulate E p c T vs ! j =
     vec_add (vs ! j)
       (TransformVector E T
          (CalculateLinearVelocity
             (m_position (GetWorldSpaceTransform E p (of_nat j)))
             (m_position (GetWorldSpaceTransform E c (of_nat j))) frameDelta))"
  by (simp add: accumulate_def)

lemma Blend_loop_all:
  assumes "length (m_velocities pd) = n" "length (m_angularVelocities pd) = n"
    "length (m_velocities d) = n" "length (m_angularVelocities d) = n"
  shows "Blend_loop [0..<n] pd d w =
         Inr (pd\<lparr>m_velocities :=
                 map2 (\<lambda>a b. Lerp a b w) (m_velocities pd) (m_velocities d),
                m_angularVelocities :=
                 map2 (\<lambda>a b. Lerp a b w) (m_angularVelocities pd) (m_angularVelocities d)\<rparr>)"
proof -
  have "map (\<lambda>j. if j \<in> set [0..<n] then Lerp (xs ! j) (ys ! j) w else xs ! j) [0..<n] =
        map2 (\<lambda>a b. Lerp a b w) xs ys"
    if "length xs = n" "length ys = n" for xs ys :: "Vector3 list"
    using that by (intro nth_equalityI) simp_all
  then show ?thesis
    using assms Blend_loop_map [of "[0..<n]" n pd d w] by simp
qed

lemma map2_fst: "length xs = length ys \<Longrightarrow> map2 (\<lambda>a b. a) xs ys = xs"
  by (intro nth_equalityI) simp_all

lemma map2_snd: "length xs = length ys \<Longrightarrow> map2 (\<lambda>a b. b) xs ys = ys"
  by (intro nth_equalityI) simp_all

lemma Blend_loop_frame:
  "Blend_loop js pd d w = Inr pd' \<Longrightarrow>
   m_isUsed pd' = m_isUsed pd \<and> m_relativeToJointIndex pd' = m_relativeToJointIndex pd \<and>
   m_pose pd' = m_pose pd"
proof (induction js arbitrary: pd)
  case Nil
  then show ?case by simp
next
  case (Cons i rest)
  then show ?case by (fastforce split: if_splits)
qed

lemma joint_loop_angular:
  "joint_loop E p c T js pd = Inr pd' \<Longrightarrow>
   m_angularVelocities pd' = m_angularVelocities pd"
proof (induction js arbitrary: pd)
  case Nil
  then show ?case by simp
next
  case (Cons j rest)
  then show ?case by (fastforce simp: Let_def split: if_splits)
qed

text \<open>
  The sample loop, unrolled over its four samples: the first only fills the previous
  pose, each of the other three runs the joint loop once.
\<close>

lemma sample_loop_result:
  assumes "length (m_velocities pd) = n"
  shows "sample_loop E (GetCurrentTime mi - halfTimeRange) (GetDuration mi) ref n
           [0, 1, 2, 3] (pd, mi, p0, c0) =
         Inr (pd\<lparr>m_velocities :=
                 accumulate E (sampled_pose E mi 2) (sampled_pose E mi 3)
                   (Inversed E (GetWorldSpaceTransform E (sampled_pose E mi 3) ref))
                   (accumulate E (sampled_pose E mi 1) (sampled_pose E mi 2)
                      (Inversed E (GetWorldSpaceTransform E (sampled_pose E mi 2) ref))
                      (accumulate E (sampled_pose E mi 0) (sampled_pose E mi 1)
                         (Inversed E (GetWorldSpaceTransform E (sampled_pose E mi 1) ref))
                         (m_velocities pd)))\<rparr>,
              mi\<lparr>GetCurrentTime := sample_time (GetCurrentTime mi) (GetDuration mi) 3\<rparr>,
              sampled_pose E mi 3, sampled_pose E mi 3)"
proof -
  show ?thesis
    using assms
    by (simp add: Let_def SetCurrentTime_def joint_loop_all sampled_pose_def
          sample_time_def window_point_def halfTimeRange_def frameDelta_def)
qed

lemma sample_loop_angular:
  "sample_loop E s D ref n js (pd, mi, p, c) = Inr (pd', mi', p', c') \<Longrightarrow>
   m_angularVelocities pd' = m_angularVelocities pd"
proof (induction js arbitrary: pd mi p c)
  case Nil
  then show ?case by simp
next
  case (Cons k rest)
  show ?case
  proof (cases "k = 0")
    case True
    with Cons.prems Cons.IH show ?thesis
      by (simp add: Let_def)
  next
    case False
    with Cons.prems obtain pd1 where
      j: "joint_loop E p
            (Update E (GetBindPose (SetCurrentTime mi (GetClamp (s + real k * frameDelta) 0 D)))
               (SetCurrentTime mi (GetClamp (s + real k * frameDelta) 0 D)))
            (Inversed E (GetWorldSpaceTransform E
               (Update E (GetBindPose (SetCurrentTime mi (GetClamp (s + real k * frameDelta) 0 D)))
                  (SetCurrentTime mi (GetClamp (s + real k * frameDelta) 0 D))) ref))
            [0..<n] pd = Inr pd1"
      and r: "sample_loop E s D ref n rest
            (pd1, SetCurrentTime mi (GetClamp (s + real k * frameDelta) 0 D),
             Update E (GetBindPose (SetCurrentTime mi (GetClamp (s + real k * frameDelta) 0 D)))
               (SetCurrentTime mi (GetClamp (s + real k * frameDelta) 0 D)),
             Update E (GetBindPose (SetCurrentTime mi (GetClamp (s + real k * frameDelta) 0 D)))
               (SetCurrentTime mi (GetClamp (s + real k * frameDelta) 0 D)))
          = Inr (pd', mi', p', c')"
      by (auto simp: Let_def split: sum.splits)
    from Cons.IH [OF r] joint_loop_angular [OF j] show ?thesis by simp
  qed
qed

lemma pair_velocity_code:
  "pair_velocity E mi ref 1 j =
     TransformVector E (Inversed E (GetWorldSpaceTransform E (sampled_pose E mi 1) ref))
       (CalculateLinearVelocity
          (m_position (GetWorldSpaceTransform E (sampled_pose E mi 0) (of_nat j)))
          (m_position (GetWorldSpaceTransform E (sampled_pose E mi 1) (of_nat j))) frameDelta)"
  "pair_velocity E mi ref 2 j =
     TransformVector E (Inversed E (GetWorldSpaceTransform E (sampled_pose E mi 2) ref))
       (CalculateLinearVelocity
          (m_position (GetWorldSpaceTransform E (sampled_pose E mi 1) (of_nat j)))
          (m_position (GetWorldSpaceTransform E (sampled_pose E mi 2) (of_nat j))) frameDelta)"
  "pair_velocity E mi ref 3 j =
     TransformVector E (Inversed E (GetWorldSpaceTransform E (sampled_pose E mi 3) ref))
       (CalculateLinearVelocity
          (m_position (GetWorldSpaceTransform E (sampled_pose E mi 2) (of_nat j)))
          (m_position (GetWorldSpaceTransform E (sampled_pose E mi 3) (of_nat j))) frameDelta)"
  by (simp_all add: pair_velocity_def into_frame_def CalculateLinearVelocity_def pair_rate_def
        frameDelta_def)

lemma estimated_velocity_unfold:
  "estimated_velocity E mi ref j =
     vec_div
       (vec_add
          (vec_add (vec_add CreateZero (pair_velocity E mi ref 1 j))
             (pair_velocity E mi ref 2 j))
          (pair_velocity E mi ref 3 j))
       (real numSamples)"
  unfolding estimated_velocity_def pairs_list by simp

lemma last_frame_velocity_unfold:
  "last_frame_velocity E mi ref j =
     vec_div
       (vec_add
          (vec_add
             (vec_add CreateZero (into_frame E mi ref numSamples (pair_rate E mi 1 j)))
             (into_frame E mi ref numSamples (pair_rate E mi 2 j)))
          (into_frame E mi ref numSamples (pair_rate E mi 3 j)))
       (real numSamples)"
  unfolding last_frame_velocity_def pairs_list by simp

lemma accumulate_thrice:
  assumes "j < n"
  shows "accumulate E p2 p3 T3
           (accumulate E p1 p2 T2 (accumulate E p0 p1 T1 (replicate n z))) ! j =
         vec_add
           (vec_add
              (vec_add z
                 (TransformVector E T1
                    (CalculateLinearVelocity
                       (m_position (GetWorldSpaceTransform E p0 (of_nat j)))
                       (m_position (GetWorldSpaceTransform E p1 (of_nat j))) frameDelta)))
              (TransformVector E T2
                 (CalculateLinearVelocity
                    (m_position (GetWorldSpaceTransform E p1 (of_nat j)))
                    (m_position (GetWorldSpaceTransform E p2 (of_nat j))) frameDelta)))
           (TransformVector E T3
              (CalculateLinearVelocity
                 (m_position (GetWorldSpaceTransform E p2 (of_nat j)))
                 (m_position (GetWorldSpaceTransform E p3 (of_nat j))) frameDelta))"
  using assms by (simp add: nth_accumulate)

lemma accumulated_velocity:
  assumes "j < n"
  shows "vec_div
          (accumulate E (sampled_pose E mi 2) (sampled_pose E mi 3)
             (Inversed E (GetWorldSpaceTransform E (sampled_pose E mi 3) ref))
             (accumulate E (sampled_pose E mi 1) (sampled_pose E mi 2)
                (Inversed E (GetWorldSpaceTransform E (sampled_pose E mi 2) ref))
                (accumulate E (sampled_pose E mi 0) (sampled_pose E mi 1)
                   (Inversed E (GetWorldSpaceTransform E (sampled_pose E mi 1) ref))
                   (replicate n CreateZero))) ! j) (real numSamples)
         = estimated_velocity E mi ref j"
  unfolding estimated_velocity_unfold pair_velocity_code accumulate_thrice [OF assms] ..

text \<open>
  The whole function: it never fails, the velocities are the specification's
  estimate, the angular velocities are zero divided by the number of samples, and the
  motion instance is handed back as it came.
\<close>

lemma CalculateVelocity_result:
  "CalculateVelocity E fresh pd mi ref =
     Inr ((SetRelativeToJointIndex pd ref)
            \<lparr>m_velocities :=
               map (estimated_velocity E mi ref) [0..<length (m_velocities pd)],
             m_angularVelocities :=
               replicate (length (m_velocities pd)) (vec_div CreateZero (real numSamples))\<rparr>,
          mi)"
proof -
  define n where "n = length (m_velocities pd)"
  define pd2 where "pd2 = (SetRelativeToJointIndex pd ref)
      \<lparr>m_velocities := resize n fresh (m_velocities (SetRelativeToJointIndex pd ref)),
       m_angularVelocities :=
         resize n fresh (m_angularVelocities (SetRelativeToJointIndex pd ref))\<rparr>"
  define pd3 where "pd3 = pd2\<lparr>m_velocities := replicate n CreateZero,
                               m_angularVelocities := replicate n CreateZero\<rparr>"
  define vs where "vs =
     accumulate E (sampled_pose E mi 2) (sampled_pose E mi 3)
       (Inversed E (GetWorldSpaceTransform E (sampled_pose E mi 3) ref))
       (accumulate E (sampled_pose E mi 1) (sampled_pose E mi 2)
          (Inversed E (GetWorldSpaceTransform E (sampled_pose E mi 2) ref))
          (accumulate E (sampled_pose E mi 0) (sampled_pose E mi 1)
             (Inversed E (GetWorldSpaceTransform E (sampled_pose E mi 1) ref))
             (replicate n CreateZero)))"
  have len2: "length (m_velocities pd2) = n" "length (m_angularVelocities pd2) = n"
    by (simp_all add: pd2_def)
  have reset: "Reset pd2 = Inr pd3"
    using Reset_all [OF len2] by (simp add: pd3_def)
  have len3: "length (m_velocities pd3) = n"
    by (simp add: pd3_def)
  have mv: "m_velocities pd3 = replicate n CreateZero"
    by (simp add: pd3_def)
  have loop: "sample_loop E (GetCurrentTime mi - halfTimeRange) (GetDuration mi) ref n
                [0..<numSamples + 1] (pd3, mi, RequestPose E, RequestPose E) =
              Inr (pd3\<lparr>m_velocities := vs\<rparr>,
                   mi\<lparr>GetCurrentTime := sample_time (GetCurrentTime mi) (GetDuration mi) 3\<rparr>,
                   sampled_pose E mi 3, sampled_pose E mi 3)"
    unfolding samples_list vs_def mv [symmetric] by (rule sample_loop_result [OF len3])
  have lenv: "length vs = n"
    by (simp add: vs_def)
  have avg: "average_loop (real numSamples) [0..<n] (pd3\<lparr>m_velocities := vs\<rparr>) =
             Inr (pd3\<lparr>m_velocities := map (\<lambda>v. vec_div v (real numSamples)) vs,
                     m_angularVelocities :=
                       map (\<lambda>v. vec_div v (real numSamples)) (replicate n CreateZero)\<rparr>)"
    using average_loop_all [of "pd3\<lparr>m_velocities := vs\<rparr>" n "real numSamples"] lenv
    by (simp add: pd3_def)
  have vel: "map (\<lambda>v. vec_div v (real numSamples)) vs = map (estimated_velocity E mi ref) [0..<n]"
    using lenv accumulated_velocity [of _ n E mi ref]
    by (intro nth_equalityI) (simp_all add: vs_def)
  have fin: "pd3\<lparr>m_velocities := map (estimated_velocity E mi ref) [0..<n],
                 m_angularVelocities := replicate n (vec_div CreateZero (real numSamples))\<rparr>
             = (SetRelativeToJointIndex pd ref)
                 \<lparr>m_velocities := map (estimated_velocity E mi ref) [0..<n],
                  m_angularVelocities := replicate n (vec_div CreateZero (real numSamples))\<rparr>"
    by (simp add: pd3_def pd2_def)
  have "CalculateVelocity E fresh pd mi ref =
        (case Reset pd2 of Inl e \<Rightarrow> Inl e
         | Inr pd3 \<Rightarrow>
           (case sample_loop E (GetCurrentTime mi - halfTimeRange) (GetDuration mi) ref n
                   [0..<numSamples + 1] (pd3, mi, RequestPose E, RequestPose E) of
              Inl e \<Rightarrow> Inl e
            | Inr (pd4, motionInstance4, prevPose4, currentPose4) \<Rightarrow>
                (case average_loop (real numSamples) [0..<n] pd4 of
                   Inl e \<Rightarrow> Inl e
                 | Inr pd5 \<Rightarrow> Inr (pd5, SetCurrentTime motionInstance4 (GetCurrentTime mi)))))"
    unfolding CalculateVelocity_def Let_def n_def pd2_def ..
  also have "\<dots> = Inr (pd3\<lparr>m_velocities := map (estimated_velocity E mi ref) [0..<n],
                 m_angularVelocities := replicate n (vec_div CreateZero (real numSamples))\<rparr>, mi)"
    unfolding reset sum.case loop prod.case avg vel SetCurrentTime_def by simp
  finally show ?thesis
    unfolding n_def fin [unfolded n_def] .
qed

lemma Lerp_components:
  "Lerp a b t = \<lparr>v_x = v_x a + (v_x b - v_x a) * t, v_y = v_y a + (v_y b - v_y a) * t,
                 v_z = v_z a + (v_z b - v_z a) * t\<rparr>"
  by (simp add: Lerp_def vec_add_def vec_mul_def vec_sub_def)

lemma Lerp_0: "Lerp a b 0 = a"
  by (simp add: Lerp_components)

lemma Lerp_1: "Lerp a b 1 = b"
  by (simp add: Lerp_components)

lemma GetClamp_range: "lo \<le> hi \<Longrightarrow> lo \<le> GetClamp v lo hi \<and> GetClamp v lo hi \<le> hi"
  by (simp add: GetClamp_def)

lemmas turning_defs =
  sampled_pose_def turning_engine_def turning_motion_def turning_Update_def
  sample_time_def window_point_def timeRange_def numSamples_def GetClamp_def
  turning_GetWorldSpaceTransform_def turning_Inversed_def turning_TransformVector_def
  quarter_turns_def two_joints_def SetRelativeToJointIndex_def InvalidIndex_def
  vec_add_def vec_sub_def vec_div_def CreateZero_def

text \<open>
  The two readings of the assertion in \<open>Blend\<close> agree wherever the call completes
  under the stricter one.
\<close>

lemma Blend_unchecked_agrees:
  "Blend pd destPose weight = Inr pd' \<Longrightarrow> Blend_unchecked pd destPose weight = Inr pd'"
  by (cases destPose) (auto simp: Blend_def Blend_unchecked_def split: if_splits)

section \<open>The claims\<close>

subsection \<open>Estimation\<close>

text \<open>
  C1. A call of \<open>CalculateVelocity\<close> at current time \<open>t\<close> on a clip of duration
  \<open>D\<close> takes \<open>N + 1 = 4\<close> samples, evenly spaced over a window of width
  \<open>W = 0.05\<close> centred on \<open>t\<close>, each sample time clamped into \<open>[0, D]\<close>. For each
  of the \<open>N\<close> consecutive pairs and every joint it accumulates
  (current position - previous position) / (W / N), taken into the frame of the
  reference joint, and in the end divides every joint's summed linear and angular
  velocity by \<open>N = 3\<close>.
\<close>

theorem CalculateVelocity_estimate:
  "(case CalculateVelocity E fresh pd motionInstance relativeToJointIndex of
      Inl e \<Rightarrow> False
    | Inr (pd', motionInstance') \<Rightarrow>
        m_velocities pd' =
          map (estimated_velocity E motionInstance relativeToJointIndex)
            [0..<length (m_velocities pd)] \<and>
        m_angularVelocities pd' =
          replicate (length (m_velocities pd)) (vec_div CreateZero (real numSamples))) \<and>
   numSamples + 1 = 4 \<and> timeRange = 0.05 \<and>
   window_point t 0 = t - timeRange / 2 \<and>
   window_point t numSamples = t + timeRange / 2 \<and>
   window_point t (Suc i) - window_point t i = timeRange / real numSamples \<and>
   (0 \<le> D \<longrightarrow> 0 \<le> sample_time t D i \<and> sample_time t D i \<le> D)"
proof -
  have "window_point t (Suc i) - window_point t i = timeRange / real numSamples"
    by (simp add: window_point_def algebra_simps add_divide_distrib)
  moreover have "window_point t numSamples = t + timeRange / 2"
    by (simp add: window_point_def numSamples_def)
  moreover have "0 \<le> D \<longrightarrow> 0 \<le> sample_time t D i \<and> sample_time t D i \<le> D"
    using GetClamp_range [of 0 D] by (simp add: sample_time_def)
  ultimately show ?thesis
    by (simp add: CalculateVelocity_result numSamples_def timeRange_def window_point_def)
qed

text \<open>
  The estimate near the start of the clip, where the first window point lies before
  time \<open>0\<close> and is clamped.
\<close>

theorem CalculateVelocity_estimate_witness:
  "CalculateVelocity turning_engine no_value two_joints (turning_motion (1 / 100)) 0 =
     Inr (two_joints\<lparr>m_relativeToJointIndex := 0,
            m_velocities := [CreateZero, \<lparr>v_x = 7 / 10, v_y = 0, v_z = 0\<rparr>],
            m_angularVelocities := [CreateZero, CreateZero]\<rparr>, turning_motion (1 / 100)) \<and>
   map (estimated_velocity turning_engine (turning_motion (1 / 100)) 0) [0..<2] =
     [CreateZero, \<lparr>v_x = 7 / 10, v_y = 0, v_z = 0\<rparr>] \<and>
   map (sample_time (1 / 100) 1) [0, 1, 2, 3] = [0, 1 / 600, 11 / 600, 7 / 200] \<and>
   map (window_point (1 / 100)) [0, 1, 2, 3] = [- 3 / 200, 1 / 600, 11 / 600, 7 / 200]"
  using CalculateVelocity_estimate
    [where E = turning_engine and fresh = no_value and pd = two_joints
       and motionInstance = "turning_motion (1 / 100)" and relativeToJointIndex = 0
       and t = "1 / 100" and i = 0 and D = 1]
  by (simp add: CalculateVelocity_result estimated_velocity_unfold pair_velocity_def
      into_frame_def pair_rate_def turning_defs upt_conv_Cons)

text \<open>
  C5, as the specification states it: every accumulated contribution is in the frame
  that the reference joint has in the last sample. On the clip whose reference joint
  turns at time \<open>1/2\<close> the function returns another vector than that reading gives.
\<close>

theorem CalculateVelocity_not_last_frame:
  "(case CalculateVelocity turning_engine no_value two_joints (turning_motion (1 / 2)) 0 of
      Inl e \<Rightarrow> False
    | Inr (pd', motionInstance') \<Rightarrow>
        m_velocities pd' = [CreateZero, \<lparr>v_x = 1 / 3, v_y = - (2 / 3), v_z = 0\<rparr>] \<and>
        m_velocities pd' \<noteq>
          map (last_frame_velocity turning_engine (turning_motion (1 / 2)) 0)
            [0..<length (m_velocities two_joints)]) \<and>
   map (last_frame_velocity turning_engine (turning_motion (1 / 2)) 0)
     [0..<length (m_velocities two_joints)] =
     [CreateZero, \<lparr>v_x = 0, v_y = - 1, v_z = 0\<rparr>]"
  by (simp add: CalculateVelocity_result estimated_velocity_unfold pair_velocity_def
      last_frame_velocity_unfold
      into_frame_def pair_rate_def turning_defs upt_conv_Cons)

text \<open>
  C5, amended. The contribution of each pair of samples is taken into the frame that
  the reference joint has in the later sample of that pair; the velocities are in the
  frame of the last sample when the reference joint has the same world transform in
  samples 1, 2 and 3.
\<close>

theorem CalculateVelocity_frames:
  "case CalculateVelocity E fresh pd motionInstance relativeToJointIndex of
     Inl e \<Rightarrow> False
   | Inr (pd', motionInstance') \<Rightarrow>
       m_velocities pd' =
         map (\<lambda>j. vec_div
                (foldl vec_add CreateZero
                   (map (\<lambda>k. into_frame E motionInstance relativeToJointIndex k
                                (pair_rate E motionInstance k j))
                      [1..<numSamples + 1]))
                (real numSamples))
           [0..<length (m_velocities pd)] \<and>
       (GetWorldSpaceTransform E (sampled_pose E motionInstance 1) relativeToJointIndex =
          GetWorldSpaceTransform E (sampled_pose E motionInstance numSamples)
            relativeToJointIndex \<and>
        GetWorldSpaceTransform E (sampled_pose E motionInstance 2) relativeToJointIndex =
          GetWorldSpaceTransform E (sampled_pose E motionInstance numSamples)
            relativeToJointIndex \<longrightarrow>
        m_velocities pd' =
          map (last_frame_velocity E motionInstance relativeToJointIndex)
            [0..<length (m_velocities pd)])"
proof -
  have e: "estimated_velocity E motionInstance relativeToJointIndex =
        (\<lambda>j. vec_div
                (foldl vec_add CreateZero
                   (map (\<lambda>k. into_frame E motionInstance relativeToJointIndex k
                                (pair_rate E motionInstance k j))
                      [1..<numSamples + 1]))
                (real numSamples))"
    by (simp add: estimated_velocity_def pair_velocity_def fun_eq_iff)
  have l: "estimated_velocity E motionInstance relativeToJointIndex =
           last_frame_velocity E motionInstance relativeToJointIndex"
    if "GetWorldSpaceTransform E (sampled_pose E motionInstance 1) relativeToJointIndex =
          GetWorldSpaceTransform E (sampled_pose E motionInstance numSamples)
            relativeToJointIndex"
      "GetWorldSpaceTransform E (sampled_pose E motionInstance 2) relativeToJointIndex =
          GetWorldSpaceTransform E (sampled_pose E motionInstance numSamples)
            relativeToJointIndex"
    using that
    by (simp add: estimated_velocity_unfold pair_velocity_def last_frame_velocity_unfold
        into_frame_def fun_eq_iff numSamples_def)
  show ?thesis
    unfolding CalculateVelocity_result using e l by simp
qed

text \<open>
  The same clip well before the turn: the reference joint keeps its transform over
  the window.
\<close>

theorem CalculateVelocity_frames_witness:
  "CalculateVelocity turning_engine no_value two_joints (turning_motion (1 / 5)) 0 =
     Inr (two_joints\<lparr>m_relativeToJointIndex := 0,
            m_velocities := [CreateZero, \<lparr>v_x = 1, v_y = 0, v_z = 0\<rparr>],
            m_angularVelocities := [CreateZero, CreateZero]\<rparr>, turning_motion (1 / 5)) \<and>
   map (last_frame_velocity turning_engine (turning_motion (1 / 5)) 0) [0..<2] =
     [CreateZero, \<lparr>v_x = 1, v_y = 0, v_z = 0\<rparr>] \<and>
   turning_GetWorldSpaceTransform
     (sampled_pose turning_engine (turning_motion (1 / 5)) 1) 0 =
   turning_GetWorldSpaceTransform
     (sampled_pose turning_engine (turning_motion (1 / 5)) 3) 0 \<and>
   turning_GetWorldSpaceTransform
     (sampled_pose turning_engine (turning_motion (1 / 5)) 2) 0 =
   turning_GetWorldSpaceTransform
     (sampled_pose turning_engine (turning_motion (1 / 5)) 3) 0"
  using CalculateVelocity_frames
    [where E = turning_engine and fresh = no_value and pd = two_joints
       and motionInstance = "turning_motion (1 / 5)" and relativeToJointIndex = 0]
  by (simp add: CalculateVelocity_result estimated_velocity_unfold pair_velocity_def
      last_frame_velocity_unfold
      into_frame_def pair_rate_def turning_defs upt_conv_Cons)

text \<open>
  C6. After \<open>CalculateVelocity\<close> the current time of the motion instance is what it
  was before the call, whatever clamping the sample times went through.
\<close>

theorem CalculateVelocity_restores_time:
  "case CalculateVelocity E fresh pd motionInstance relativeToJointIndex of
     Inl e \<Rightarrow> False
   | Inr (pd', motionInstance') \<Rightarrow>
       GetCurrentTime motionInstance' = GetCurrentTime motionInstance \<and>
       motionInstance' = motionInstance"
  by (simp add: CalculateVelocity_result)

text \<open>
  A call whose first sample time is clamped.
\<close>

theorem CalculateVelocity_restores_time_witness:
  "map (sample_time (1 / 100) 1) [0, 1, 2, 3] = [0, 1 / 600, 11 / 600, 7 / 200] \<and>
   (case CalculateVelocity turning_engine no_value two_joints (turning_motion (1 / 100)) 0 of
      Inl e \<Rightarrow> False
    | Inr (pd', motionInstance') \<Rightarrow> GetCurrentTime motionInstance' = 1 / 100)"
  using CalculateVelocity_restores_time
    [where E = turning_engine and fresh = no_value and pd = two_joints
       and motionInstance = "turning_motion (1 / 100)" and relativeToJointIndex = 0]
  by (simp add: turning_motion_def sample_time_def window_point_def timeRange_def
      numSamples_def GetClamp_def split: sum.splits prod.splits)

text \<open>
  C7. After \<open>CalculateVelocity\<close> every angular velocity is exactly zero: \<open>Reset\<close>
  zeroes the vector before the sample loop, the sample loop does not write it, and the
  division at the end leaves zero.
\<close>

theorem CalculateVelocity_angular_zero:
  "(case CalculateVelocity E fresh pd motionInstance relativeToJointIndex of
      Inl e \<Rightarrow> False
    | Inr (pd', motionInstance') \<Rightarrow>
        m_angularVelocities pd' = replicate (length (m_velocities pd)) CreateZero) \<and>
   (length (m_velocities pd2) = n \<and> length (m_angularVelocities pd2) = n \<longrightarrow>
      (case Reset pd2 of
         Inl e \<Rightarrow> False
       | Inr pd3 \<Rightarrow> m_angularVelocities pd3 = replicate n CreateZero)) \<and>
   (sample_loop E startTime motionDuration relativeToJointIndex numJoints sampleIndices
      (pd3, motionInstance3, prevPose, currentPose) =
      Inr (pd4, motionInstance4, prevPose4, currentPose4) \<longrightarrow>
    m_angularVelocities pd4 = m_angularVelocities pd3)"
proof -
  have "vec_div CreateZero (real numSamples) = CreateZero"
    by (simp add: vec_div_def CreateZero_def)
  then show ?thesis
    using sample_loop_angular
      [of E startTime motionDuration relativeToJointIndex numJoints sampleIndices
          pd3 motionInstance3 prevPose currentPose pd4 motionInstance4 prevPose4 currentPose4]
    by (simp add: CalculateVelocity_result Reset_all)
qed

text \<open>
  Pose data whose angular velocities are not zero before the call.
\<close>

theorem CalculateVelocity_angular_zero_witness:
  "m_angularVelocities two_joints = [\<lparr>v_x = 7, v_y = 8, v_z = 9\<rparr>, \<lparr>v_x = 1, v_y = 1, v_z = 1\<rparr>] \<and>
   (case CalculateVelocity turning_engine no_value two_joints (turning_motion (1 / 2)) 0 of
      Inl e \<Rightarrow> False
    | Inr (pd', motionInstance') \<Rightarrow>
        m_angularVelocities pd' = [\<lparr>v_x = 0, v_y = 0, v_z = 0\<rparr>, \<lparr>v_x = 0, v_y = 0, v_z = 0\<rparr>])"
  using CalculateVelocity_angular_zero
    [where E = turning_engine and fresh = no_value and pd = two_joints
       and motionInstance = "turning_motion (1 / 2)" and relativeToJointIndex = 0
       and ?pd2.0 = two_joints and n = 2 and sampleIndices = "[]"
       and ?pd3.0 = two_joints and ?pd4.0 = two_joints 
       and ?motionInstance3.0 = "turning_motion (1 / 2)"
       and ?motionInstance4.0 = "turning_motion (1 / 2)"
       and prevPose = "[]" and currentPose = "[]" and ?prevPose4.0 = "[]"
       and ?currentPose4.0 = "[]" and startTime = 0 and motionDuration = 1 and numJoints = 2]
  by (simp add: two_joints_def CreateZero_def numeral_2_eq_2 split: sum.splits prod.splits)

subsection \<open>Blend\<close>

text \<open>
  C2. If this pose data and the destination's are both used and their vectors have
  the same length, \<open>Blend\<close> leaves in every linear and angular velocity the
  componentwise interpolation \<open>Lerp\<close> of the own and the destination's value; weight
  \<open>0\<close> gives the own values back and weight \<open>1\<close> the destination's.
\<close>

theorem Blend_interpolates:
  assumes "m_isUsed pd" and "m_isUsed destPoseData"
    and "length (m_velocities destPoseData) = length (m_velocities pd)"
    and "length (m_angularVelocities pd) = length (m_velocities pd)"
    and "length (m_angularVelocities destPoseData) = length (m_velocities pd)"
  shows "Blend pd (Some destPoseData) weight =
           Inr (pd\<lparr>m_velocities :=
                   map2 (\<lambda>a b. Lerp a b weight) (m_velocities pd) (m_velocities destPoseData),
                  m_angularVelocities :=
                   map2 (\<lambda>a b. Lerp a b weight) (m_angularVelocities pd)
                     (m_angularVelocities destPoseData)\<rparr>) \<and>
         Lerp a b weight =
           \<lparr>v_x = v_x a + (v_x b - v_x a) * weight, v_y = v_y a + (v_y b - v_y a) * weight,
            v_z = v_z a + (v_z b - v_z a) * weight\<rparr> \<and>
         Blend pd (Some destPoseData) 0 = Inr pd \<and>
         Blend pd (Some destPoseData) 1 =
           Inr (pd\<lparr>m_velocities := m_velocities destPoseData,
                  m_angularVelocities := m_angularVelocities destPoseData\<rparr>)"
proof -
  have b: "Blend pd (Some destPoseData) w =
           Inr (pd\<lparr>m_velocities :=
                   map2 (\<lambda>a b. Lerp a b w) (m_velocities pd) (m_velocities destPoseData),
                  m_angularVelocities :=
                   map2 (\<lambda>a b. Lerp a b w) (m_angularVelocities pd)
                     (m_angularVelocities destPoseData)\<rparr>)" for w
    using assms Blend_loop_all [of pd "length (m_velocities pd)" destPoseData w]
    by (simp add: Blend_def)
  have "Blend pd (Some destPoseData) 0 = Inr pd"
    using assms by (simp add: b Lerp_0 map2_fst)
  moreover have "Blend pd (Some destPoseData) 1 =
           Inr (pd\<lparr>m_velocities := m_velocities destPoseData,
                  m_angularVelocities := m_angularVelocities destPoseData\<rparr>)"
    using assms by (simp add: b Lerp_1 map2_snd)
  ultimately show ?thesis
    using b [of weight] Lerp_components [of a b weight] by simp
qed

text \<open>
  Half way between two pose data of two joints.
\<close>

theorem Blend_interpolates_witness:
  "Blend two_joints (Some other_joints) (1 / 2) =
     Inr (two_joints\<lparr>m_velocities :=
                        [\<lparr>v_x = 2, v_y = 2, v_z = 2\<rparr>, \<lparr>v_x = 2, v_y = 3, v_z = 4\<rparr>],
                      m_angularVelocities :=
                        [\<lparr>v_x = 4, v_y = 4, v_z = 5\<rparr>, \<lparr>v_x = 2, v_y = 2, v_z = 2\<rparr>]\<rparr>) \<and>
   Blend two_joints (Some other_joints) 0 = Inr two_joints \<and>
   Blend two_joints (Some other_joints) 1 =
     Inr (two_joints\<lparr>m_velocities := m_velocities other_joints,
                      m_angularVelocities := m_angularVelocities other_joints\<rparr>)"
  using Blend_interpolates [of two_joints other_joints "1 / 2" CreateZero CreateZero]
  by (simp add: two_joints_def other_joints_def Lerp_components)

text \<open>
  C3. If this pose data is not used and the destination's is attached and used, then
  after \<open>Blend\<close> the velocities and angular velocities are the destination's, for
  every weight. Where a failed assertion does not stop the call this is the result
  outright; where it does, it is the result of every call that completes, and the call
  completes when the two velocity vectors have the same length.
\<close>

theorem Blend_replaces:
  assumes "\<not> m_isUsed pd" and "m_isUsed destPoseData"
  shows "Blend_unchecked pd (Some destPoseData) weight =
           Inr (pd\<lparr>m_velocities := m_velocities destPoseData,
                  m_angularVelocities := m_angularVelocities destPoseData\<rparr>) \<and>
         (Blend pd (Some destPoseData) weight = Inr pd' \<longrightarrow>
            m_velocities pd' = m_velocities destPoseData \<and>
            m_angularVelocities pd' = m_angularVelocities destPoseData) \<and>
         (length (m_velocities pd) = length (m_velocities destPoseData) \<longrightarrow>
            Blend pd (Some destPoseData) weight =
              Inr (pd\<lparr>m_velocities := m_velocities destPoseData,
                     m_angularVelocities := m_angularVelocities destPoseData\<rparr>))"
proof (intro conjI impI)
  show "Blend_unchecked pd (Some destPoseData) weight =
          Inr (pd\<lparr>m_velocities := m_velocities destPoseData,
                 m_angularVelocities := m_angularVelocities destPoseData\<rparr>)"
    using assms by (simp add: Blend_unchecked_def)
next
  assume "Blend pd (Some destPoseData) weight = Inr pd'"
  with assms show "m_velocities pd' = m_velocities destPoseData"
    and "m_angularVelocities pd' = m_angularVelocities destPoseData"
    by (auto simp: Blend_def split: if_splits)
next
  assume "length (m_velocities pd) = length (m_velocities destPoseData)"
  with assms show "Blend pd (Some destPoseData) weight =
          Inr (pd\<lparr>m_velocities := m_velocities destPoseData,
                 m_angularVelocities := m_angularVelocities destPoseData\<rparr>)"
    by (simp add: Blend_def)
qed

text \<open>
  Pose data that was never linked takes over the vectors of a destination of two
  joints, and so does unused pose data of two joints, whose call completes under
  either reading of the assertion.
\<close>

theorem Blend_replaces_witness:
  "Blend_unchecked unlinked (Some other_joints) (1 / 2) =
     Inr \<lparr>m_pose = 0, m_isUsed = False,
          m_velocities = [\<lparr>v_x = 3, v_y = 2, v_z = 1\<rparr>, \<lparr>v_x = 0, v_y = 1, v_z = 2\<rparr>],
          m_angularVelocities = [\<lparr>v_x = 1, v_y = 0, v_z = 1\<rparr>, \<lparr>v_x = 3, v_y = 3, v_z = 3\<rparr>],
          m_relativeToJointIndex = 0\<rparr> \<and>
   Blend_unchecked (two_joints\<lparr>m_isUsed := False\<rparr>) (Some other_joints) (1 / 4) =
     Inr \<lparr>m_pose = 0, m_isUsed = False,
          m_velocities = [\<lparr>v_x = 3, v_y = 2, v_z = 1\<rparr>, \<lparr>v_x = 0, v_y = 1, v_z = 2\<rparr>],
          m_angularVelocities = [\<lparr>v_x = 1, v_y = 0, v_z = 1\<rparr>, \<lparr>v_x = 3, v_y = 3, v_z = 3\<rparr>],
          m_relativeToJointIndex = 1\<rparr> \<and>
   Blend (two_joints\<lparr>m_isUsed := False\<rparr>) (Some other_joints) (1 / 4) =
     Inr \<lparr>m_pose = 0, m_isUsed = False,
          m_velocities = [\<lparr>v_x = 3, v_y = 2, v_z = 1\<rparr>, \<lparr>v_x = 0, v_y = 1, v_z = 2\<rparr>],
          m_angularVelocities = [\<lparr>v_x = 1, v_y = 0, v_z = 1\<rparr>, \<lparr>v_x = 3, v_y = 3, v_z = 3\<rparr>],
          m_relativeToJointIndex = 1\<rparr>"
  using Blend_replaces [of unlinked other_joints "1 / 2"]
    Blend_replaces [of "two_joints\<lparr>m_isUsed := False\<rparr>" other_joints "1 / 4"]
  by (simp add: two_joints_def other_joints_def unlinked_def)

text \<open>
  C4. If the destination pose has no joint velocities attached, or they are not used,
  \<open>Blend\<close> leaves this pose data as it is, for every weight.
\<close>

theorem Blend_no_op:
  assumes "case destPose of None \<Rightarrow> True | Some destPoseData \<Rightarrow> \<not> m_isUsed destPoseData"
  shows "Blend pd destPose weight = Inr pd"
  using assms by (cases destPose) (simp_all add: Blend_def)

text \<open>
  Both cases: nothing attached, and attached but unused.
\<close>

theorem Blend_no_op_witness:
  "Blend two_joints None (1 / 2) = Inr two_joints \<and>
   Blend two_joints (Some (other_joints\<lparr>m_isUsed := False\<rparr>)) (1 / 2) = Inr two_joints"
  using Blend_no_op [of None two_joints "1 / 2"]
    Blend_no_op [of "Some (other_joints\<lparr>m_isUsed := False\<rparr>)" two_joints "1 / 2"]
  by simp

text \<open>
  C10. Whenever \<open>Blend\<close> completes, in whichever branch, the used flag and the
  reference joint index are what they were. In the replacing branch only the two
  vectors are copied: pose data that was unused stays unused. The last part says when
  \<open>Blend\<close> completes: when nothing is attached or the destination is unused, or when
  the lengths agree.
\<close>

theorem Blend_keeps_flags:
  "(Blend pd destPose weight = Inr pd' \<longrightarrow>
      m_isUsed pd' = m_isUsed pd \<and>
      m_relativeToJointIndex pd' = m_relativeToJointIndex pd) \<and>
   (\<not> m_isUsed pd \<and> m_isUsed d \<and> length (m_velocities pd) = length (m_velocities d) \<longrightarrow>
      (\<exists>pd''. Blend pd (Some d) weight = Inr pd'' \<and> \<not> m_isUsed pd'' \<and>
         m_relativeToJointIndex pd'' = m_relativeToJointIndex pd \<and>
         m_velocities pd'' = m_velocities d \<and>
         m_angularVelocities pd'' = m_angularVelocities d)) \<and>
   ((case destPose of
       None \<Rightarrow> True
     | Some destPoseData \<Rightarrow>
         m_isUsed destPoseData \<longrightarrow>
           length (m_velocities destPoseData) = length (m_velocities pd) \<and>
           (m_isUsed pd \<longrightarrow>
              length (m_angularVelocities pd) = length (m_velocities pd) \<and>
              length (m_angularVelocities destPoseData) = length (m_velocities pd))) \<longrightarrow>
      (\<exists>pd''. Blend pd destPose weight = Inr pd''))"
proof (intro conjI impI)
  assume "Blend pd destPose weight = Inr pd'"
  then show "m_isUsed pd' = m_isUsed pd"
    and "m_relativeToJointIndex pd' = m_relativeToJointIndex pd"
    by (auto simp: Blend_def split: option.splits if_splits dest: Blend_loop_frame)
next
  assume "\<not> m_isUsed pd \<and> m_isUsed d \<and> length (m_velocities pd) = length (m_velocities d)"
  then show "\<exists>pd''. Blend pd (Some d) weight = Inr pd'' \<and> \<not> m_isUsed pd'' \<and>
         m_relativeToJointIndex pd'' = m_relativeToJointIndex pd \<and>
         m_velocities pd'' = m_velocities d \<and>
         m_angularVelocities pd'' = m_angularVelocities d"
    by (simp add: Blend_def)
next
  assume a: "case destPose of
       None \<Rightarrow> True
     | Some destPoseData \<Rightarrow>
         m_isUsed destPoseData \<longrightarrow>
           length (m_velocities destPoseData) = length (m_velocities pd) \<and>
           (m_isUsed pd \<longrightarrow>
              length (m_angularVelocities pd) = length (m_velocities pd) \<and>
              length (m_angularVelocities destPoseData) = length (m_velocities pd))"
  show "\<exists>pd''. Blend pd destPose weight = Inr pd''"
  proof (cases destPose)
    case None
    then show ?thesis by (simp add: Blend_def)
  next
    case (Some destPoseData)
    with a show ?thesis
      using Blend_loop_all [of pd "length (m_velocities pd)" destPoseData weight]
      by (simp add: Blend_def)
  qed
qed

text \<open>
  The replacing branch on pose data of two joints.
\<close>

theorem Blend_keeps_flags_witness:
  "Blend (two_joints\<lparr>m_isUsed := False\<rparr>) (Some other_joints) (3 / 4) =
     Inr (two_joints\<lparr>m_isUsed := False, m_velocities := m_velocities other_joints,
                      m_angularVelocities := m_angularVelocities other_joints\<rparr>) \<and>
   m_isUsed (two_joints\<lparr>m_isUsed := False, m_velocities := m_velocities other_joints,
                        m_angularVelocities := m_angularVelocities other_joints\<rparr>) = False \<and>
   m_relativeToJointIndex
     (two_joints\<lparr>m_isUsed := False, m_velocities := m_velocities other_joints,
                  m_angularVelocities := m_angularVelocities other_joints\<rparr>) = 1"
  using Blend_keeps_flags [of "two_joints\<lparr>m_isUsed := False\<rparr>" "Some other_joints" "3 / 4"
      "two_joints\<lparr>m_isUsed := False, m_velocities := m_velocities other_joints,
                  m_angularVelocities := m_angularVelocities other_joints\<rparr>" other_joints]
  by (simp add: Blend_def two_joints_def other_joints_def)

subsection \<open>CopyFrom\<close>

text \<open>
  C8. After \<open>a.CopyFrom(b)\<close>, for \<open>b\<close> joint velocity pose data, both vectors, the
  reference joint index and the used flag of \<open>a\<close> are those of \<open>b\<close>; the owning
  pose of \<open>a\<close> is not touched.
\<close>

theorem CopyFrom_equal:
  "case CopyFrom a (JointVelocities b) of
     Inl e \<Rightarrow> False
   | Inr a' \<Rightarrow>
       m_velocities a' = m_velocities b \<and>
       m_angularVelocities a' = m_angularVelocities b \<and>
       m_relativeToJointIndex a' = m_relativeToJointIndex b \<and>
       m_isUsed a' = m_isUsed b \<and> m_pose a' = m_pose a"
  by (simp add: CopyFrom_def)

text \<open>
  Copying into pose data that has never been linked.
\<close>

theorem CopyFrom_equal_witness:
  "CopyFrom unlinked (JointVelocities other_joints) = Inr (other_joints\<lparr>m_pose := 0\<rparr>)"
  using CopyFrom_equal [of unlinked other_joints]
  by (simp add: CopyFrom_def unlinked_def other_joints_def)

subsection \<open>LinkToActorInstance\<close>

text \<open>
  C9, as the specification states it: after linking, the reference joint index is
  less than the number of joints. An actor instance without joints has no such index:
  the index is \<open>0\<close> and so is the number of joints.
\<close>

theorem LinkToActorInstance_no_joints:
  "length (m_velocities (LinkToActorInstance no_value unlinked no_joints)) = 0 \<and>
   m_relativeToJointIndex (LinkToActorInstance no_value unlinked no_joints) = 0 \<and>
   \<not> unat (m_relativeToJointIndex (LinkToActorInstance no_value unlinked no_joints))
      < length (m_velocities (LinkToActorInstance no_value unlinked no_joints))"
  by (simp add: LinkToActorInstance_def SetRelativeToJointIndex_def no_joints_def unlinked_def)

text \<open>
  C9, amended. After linking to an actor instance with \<open>J\<close> joints both vectors
  have length \<open>J\<close>, and the reference joint index is the motion extraction joint of
  the actor, or \<open>0\<close> when that is the invalid index. The index is less than \<open>J\<close>
  when there is at least one joint and the motion extraction joint is the invalid
  index or less than \<open>J\<close>.
\<close>

theorem LinkToActorInstance_sizes:
  "length (m_velocities (LinkToActorInstance fresh pd actorInstance)) =
     unat (GetNumNodes actorInstance) \<and>
   length (m_angularVelocities (LinkToActorInstance fresh pd actorInstance)) =
     unat (GetNumNodes actorInstance) \<and>
   m_relativeToJointIndex (LinkToActorInstance fresh pd actorInstance) =
     (if GetMotionExtractionNodeIndex actorInstance = InvalidIndex then 0
      else GetMotionExtractionNodeIndex actorInstance) \<and>
   (0 < unat (GetNumNodes actorInstance) \<and>
    (GetMotionExtractionNodeIndex actorInstance = InvalidIndex \<or>
     unat (GetMotionExtractionNodeIndex actorInstance) < unat (GetNumNodes actorInstance)) \<longrightarrow>
    unat (m_relativeToJointIndex (LinkToActorInstance fresh pd actorInstance)) <
      length (m_velocities (LinkToActorInstance fresh pd actorInstance)))"
  by (auto simp: LinkToActorInstance_def SetRelativeToJointIndex_def)

text \<open>
  An actor instance of three joints without a motion extraction joint.
\<close>

theorem LinkToActorInstance_sizes_witness:
  "m_velocities (LinkToActorInstance no_value unlinked three_joints) =
     [\<lparr>v_x = 1, v_y = 1, v_z = 1\<rparr>, \<lparr>v_x = 1, v_y = 1, v_z = 1\<rparr>, \<lparr>v_x = 1, v_y = 1, v_z = 1\<rparr>] \<and>
   length (m_angularVelocities (LinkToActorInstance no_value unlinked three_joints)) = 3 \<and>
   m_relativeToJointIndex (LinkToActorInstance no_value unlinked three_joints) = 0 \<and>
   unat (m_relativeToJointIndex (LinkToActorInstance no_value unlinked three_joints)) <
     length (m_velocities (LinkToActorInstance no_value unlinked three_joints))"
  using LinkToActorInstance_sizes [of no_value unlinked three_joints]
  by (simp add: LinkToActorInstance_def SetRelativeToJointIndex_def three_joints_def
      unlinked_def resize_def no_value_def upt_conv_Cons)

end
